theory Spec2Isabelle
  imports Main
begin

section \<open>Strings and JSON values as the bridge sees them\<close>

text \<open>
  A string is the list of the bytes of its UTF-8 encoding, so a string of ASCII
  characters is the list of its characters. Equality, emptiness, concatenation and the
  search for a comma are those of the JavaScript string.

  \<open>String.prototype.toUpperCase\<close> and \<open>String.prototype.trim\<close> are functions of the
  runtime, not of the bridge, and they follow the Unicode tables. The model takes both as
  parameters (fields of the configuration below), so that what is proved of the bridge
  holds for the runtime's own functions. The two functions defined here agree with them on
  strings of ASCII characters; they serve in the examples, whose strings are all ASCII.
\<close>

definition upper_char :: "char \<Rightarrow> char" where
  "upper_char c =
     (case map_of (zip ''abcdefghijklmnopqrstuvwxyz'' ''ABCDEFGHIJKLMNOPQRSTUVWXYZ'') c of
        Some u \<Rightarrow> u
      | None \<Rightarrow> c)"

definition ascii_toUpperCase :: "string \<Rightarrow> string" where
  "ascii_toUpperCase s = map upper_char s"

definition is_space :: "char \<Rightarrow> bool" where
  "is_space c = (c = CHR '' '' \<or> c = CHR 0x09 \<or> c = CHR 0x0A \<or> c = CHR 0x0B
                 \<or> c = CHR 0x0C \<or> c = CHR 0x0D)"

definition ascii_trim :: "string \<Rightarrow> string" where
  "ascii_trim s = rev (dropWhile is_space (rev (dropWhile is_space s)))"

text \<open>\<open>s.split(',')\<close>: the pieces between the commas, empty pieces included.\<close>

fun split_comma :: "string \<Rightarrow> string list" where
  "split_comma [] = [[]]"
| "split_comma (c # cs) =
     (if c = CHR '','' then [] # split_comma cs
      else (case split_comma cs of
              w # ws \<Rightarrow> (c # w) # ws
            | [] \<Rightarrow> [[c]]))"

text \<open>Decimal rendering of the clock reading \<open>Date.now()\<close>, as a template literal
  produces it.\<close>

definition digit_char :: "nat \<Rightarrow> char" where
  "digit_char n = ''0123456789'' ! n"

fun digits :: "nat \<Rightarrow> string" where
  "digits n = (if n < 10 then [digit_char n] else digits (n div 10) @ [digit_char (n mod 10)])"

text \<open>
  The result of \<open>JSON.parse\<close>. A number is a double; the bridge never computes with one,
  it only tests its truthiness and converts it to a string, so a number is carried as
  these two observations: whether it is truthy (neither zero nor NaN) and the text its
  string conversion gives. An object is the list of its own properties, each key once;
  \<open>undefined\<close> is \<open>None\<close> of \<open>json option\<close>.
\<close>

datatype json =
    JNull
  | JBool bool
  | JNum bool string
  | JStr string
  | JArr "json list"
  | JObj "(string \<times> json) list"

text \<open>JavaScript truthiness, as \<open>||\<close>, \<open>&&\<close> and \<open>!\<close> test it.\<close>

fun truthy :: "json option \<Rightarrow> bool" where
  "truthy None = False"
| "truthy (Some JNull) = False"
| "truthy (Some (JBool b)) = b"
| "truthy (Some (JNum nonzero txt)) = nonzero"
| "truthy (Some (JStr s)) = (s \<noteq> [])"
| "truthy (Some (JArr xs)) = True"
| "truthy (Some (JObj kvs)) = True"

text \<open>\<open>a || b\<close> on possibly undefined values.\<close>

definition js_or :: "json option \<Rightarrow> json option \<Rightarrow> json option" where
  "js_or a b = (if truthy a then a else b)"

fun join_comma :: "string list \<Rightarrow> string" where
  "join_comma [] = []"
| "join_comma [x] = x"
| "join_comma (x # y # ys) = x @ '','' @ join_comma (y # ys)"

text \<open>
  String conversion inside a template literal. It throws a TypeError on an object that
  has a property \<open>toString\<close> of its own: a parsed value is never callable, and the
  inherited \<open>valueOf\<close> gives back the object. An array is joined, so it throws when one
  of its elements does. \<open>js_toString\<close> is the text where the conversion does not throw.
\<close>

fun toString_throws :: "json \<Rightarrow> bool" where
  "toString_throws (JObj kvs) = (map_of kvs ''toString'' \<noteq> None)"
| "toString_throws (JArr xs) = list_ex toString_throws xs"
| "toString_throws v = False"

fun js_toString :: "json \<Rightarrow> string" where
  "js_toString JNull = ''null''"
| "js_toString (JBool b) = (if b then ''true'' else ''false'')"
| "js_toString (JNum nonzero txt) = txt"
| "js_toString (JStr s) = s"
| "js_toString (JArr xs) = join_comma (map (\<lambda>x. if x = JNull then [] else js_toString x) xs)"
| "js_toString (JObj kvs) = ''[object Object]''"

definition template_throws :: "json option \<Rightarrow> bool" where
  "template_throws v = (case v of None \<Rightarrow> False | Some x \<Rightarrow> toString_throws x)"

definition template_str :: "json option \<Rightarrow> string" where
  "template_str v = (case v of None \<Rightarrow> ''undefined'' | Some x \<Rightarrow> js_toString x)"

text \<open>
  Property access \<open>message.key\<close> on a parsed value other than \<open>null\<close>, for the keys the
  handler reads: an object is looked up, every other value has none of them. (On \<open>null\<close>
  the access throws; the handler's model tests for it before reading.)
\<close>

fun js_get :: "json \<Rightarrow> string \<Rightarrow> json option" where
  "js_get (JObj kvs) k = map_of kvs k"
| "js_get v k = None"

text \<open>A call that may throw: \<open>Threw\<close>, or the state it leaves.\<close>

datatype 'a thrown = Threw | Val 'a

text \<open>
  \<open>x?.substring(0, 80)\<close>: nothing happens on \<open>undefined\<close> and \<open>null\<close>, a string has the
  method, and on every other parsed value \<open>substring\<close> is not a function, a TypeError.
\<close>

fun substring_throws :: "json option \<Rightarrow> bool" where
  "substring_throws None = False"
| "substring_throws (Some JNull) = False"
| "substring_throws (Some (JStr s)) = False"
| "substring_throws (Some v) = True"

section \<open>Process configuration, sockets, statistics\<close>

text \<open>
  What the process is started in: the environment variables read at startup, an unset
  variable being \<open>None\<close>, and the two string functions of the runtime.
\<close>

record config =
  FINNHUB_API_KEY :: "string option"
  N8N_WEBHOOK_URL :: "string option"
  SYMBOLS_env :: "string option"
  toUpperCase :: "string \<Rightarrow> string"
  trim :: "string \<Rightarrow> string"

text \<open>An environment variable is truthy when it is set and not the empty string.\<close>

definition env_set :: "string option \<Rightarrow> bool" where
  "env_set v = (case v of None \<Rightarrow> False | Some x \<Rightarrow> x \<noteq> [])"

text \<open>The initial topic list: the configured list, split, trimmed and upper-cased, or AAPL.\<close>

definition initial_SYMBOLS :: "config \<Rightarrow> string list" where
  "initial_SYMBOLS cfg =
     (case SYMBOLS_env cfg of
        None \<Rightarrow> [''AAPL'']
      | Some x \<Rightarrow> if x = [] then [''AAPL'']
                  else map (\<lambda>w. toUpperCase cfg (trim cfg w)) (split_comma x))"

datatype ready_state = CONNECTING | OPEN | CLOSING | CLOSED

record socket =
  sock_id :: nat
  readyState :: ready_state

text \<open>The text frames the bridge writes to the feed.\<close>

datatype frame = Subscribe string | Unsubscribe string | Pong

text \<open>The two callbacks handed to \<open>setTimeout\<close>.\<close>

datatype callback = Call_subscribeToAllSymbols | Call_connectToFinnhub

record stats =
  connected :: bool
  lastMessage :: "nat option"
  messagesReceived :: nat
  messagesSent :: nat
  connectionTime :: "nat option"
  errors :: nat

text \<open>The object built by the news branch of the message handler.\<close>

record news =
  type_field :: string
  symbol :: "json option"
  headline :: "json option"
  summary :: "json option"
  source :: "json option"
  url :: "json option"
  image_field :: "json option"
  datetime :: "json option"
  category :: "json option"
  id_field :: "json option"
  related :: "json option"

text \<open>
  The body posted to the webhook. The literal's \<open>source: 'finnhub'\<close> is overwritten by the
  spread of the news object, which always has a \<open>source\<close> property of its own, so the
  body is the bridge name, the send time and the news object.
\<close>

record payload =
  bridge_name :: string
  timestamp :: nat
  body :: news

record http_post =
  post_url :: string
  post_payload :: payload

text \<open>
  What \<open>axios.post\<close> ends with: a response with its final status code, or no response
  (connection failure, timeout). The promise resolves for a 2xx status only.
\<close>

datatype http_result = Response nat | NoResponse

fun resolves :: "http_result \<Rightarrow> bool" where
  "resolves (Response n) = (200 \<le> n \<and> n < 300)"
| "resolves NoResponse = False"

text \<open>
  The process state: the module's variables, followed by a log of the effects on the
  outside world (sockets created and terminated, frames and pings written, timers set,
  posts made), each in the order of occurrence.
\<close>

record bridge =
  SYMBOLS :: "string list"
  ws :: "socket option"
  reconnectAttempts :: nat
  stats :: stats
  next_socket :: nat
  frames :: "(nat \<times> frame) list"
  pings :: "nat list"
  terminated :: "nat list"
  timers :: "(nat \<times> callback) list"
  posts :: "http_post list"

definition MAX_RECONNECT_ATTEMPTS :: nat where
  "MAX_RECONNECT_ATTEMPTS = 10"

definition BASE_RECONNECT_DELAY :: nat where
  "BASE_RECONNECT_DELAY = 2000"

definition initial :: "config \<Rightarrow> bridge" where
  "initial cfg =
     \<lparr>SYMBOLS = initial_SYMBOLS cfg, ws = None, reconnectAttempts = 0,
      stats = \<lparr>connected = False, lastMessage = None, messagesReceived = 0,
               messagesSent = 0, connectionTime = None, errors = 0\<rparr>,
      next_socket = 0, frames = [], pings = [], terminated = [], timers = [], posts = []\<rparr>"

text \<open>The recurring test \<open>ws && ws.readyState === WebSocket.OPEN\<close>.\<close>

definition is_open :: "bridge \<Rightarrow> bool" where
  "is_open s = (case ws s of None \<Rightarrow> False | Some sock \<Rightarrow> readyState sock = OPEN)"

text \<open>
  \<open>ws.send\<close> on the current socket, unguarded: a TypeError when \<open>ws\<close> is null, an error
  of the socket library while the socket is still connecting, a written frame when it is
  open, and nothing once it is closing or closed.
\<close>

definition ws_send :: "frame \<Rightarrow> bridge \<Rightarrow> bridge thrown" where
  "ws_send f s =
     (case ws s of
        None \<Rightarrow> Threw
      | Some sock \<Rightarrow>
          (case readyState sock of
             CONNECTING \<Rightarrow> Threw
           | OPEN \<Rightarrow> Val (s\<lparr>frames := frames s @ [(sock_id sock, f)]\<rparr>)
           | CLOSING \<Rightarrow> Val s
           | CLOSED \<Rightarrow> Val s))"

definition count_error :: "bridge \<Rightarrow> bridge" where
  "count_error s = s\<lparr>stats := (stats s)\<lparr>errors := errors (stats s) + 1\<rparr>\<rparr>"

section \<open>Subscriptions and the symbol endpoints\<close>

definition subscribeToSymbol :: "string \<Rightarrow> bridge \<Rightarrow> bridge" where
  "subscribeToSymbol tpc s =
     (case ws s of
        None \<Rightarrow> s
      | Some sock \<Rightarrow>
          if readyState sock = OPEN
          then s\<lparr>frames := frames s @ [(sock_id sock, Subscribe tpc)]\<rparr>
          else s)"

definition unsubscribeFromSymbol :: "string \<Rightarrow> bridge \<Rightarrow> bridge" where
  "unsubscribeFromSymbol tpc s =
     (case ws s of
        None \<Rightarrow> s
      | Some sock \<Rightarrow>
          if readyState sock = OPEN
          then s\<lparr>frames := frames s @ [(sock_id sock, Unsubscribe tpc)]\<rparr>
          else s)"

text \<open>\<open>SYMBOLS.forEach(symbol => subscribeToSymbol(symbol))\<close>, behind the readiness test.\<close>

definition subscribeToAllSymbols :: "bridge \<Rightarrow> bridge" where
  "subscribeToAllSymbols s =
     (if \<not> is_open s then s
      else foldl (\<lambda>a tpc. subscribeToSymbol tpc a) s (SYMBOLS s))"

text \<open>
  The answers of the symbol endpoints: 200 with a message and the topic list, 400 and 404
  with an error text, and the framework's 500 when the handler throws.
\<close>

datatype response =
    Json200 string "string list"
  | Json400 string
  | Json404 string
  | Uncaught500

text \<open>
  \<open>POST /symbols/add\<close>. The argument is \<open>req.body.symbol\<close>. A truthy value that is not a
  string has no \<open>toUpperCase\<close>: the condition throws before anything is changed.
\<close>

definition symbols_add :: "config \<Rightarrow> json option \<Rightarrow> bridge \<Rightarrow> response \<times> bridge" where
  "symbols_add cfg tpc s =
     (if \<not> truthy tpc then (Json400 ''Invalid symbol or limit reached (50 max)'', s)
      else (case tpc of
              Some (JStr t) \<Rightarrow>
                if toUpperCase cfg t \<notin> set (SYMBOLS s) \<and> length (SYMBOLS s) < 50
                then (let upperSymbol = toUpperCase cfg t;
                          s1 = s\<lparr>SYMBOLS := SYMBOLS s @ [upperSymbol]\<rparr>;
                          s2 = (if is_open s1 then subscribeToSymbol upperSymbol s1 else s1)
                      in (Json200 (''Added '' @ upperSymbol) (SYMBOLS s2), s2))
                else (Json400 ''Invalid symbol or limit reached (50 max)'', s)
            | _ \<Rightarrow> (Uncaught500, s)))"

text \<open>
  \<open>DELETE /symbols/:symbol\<close>. \<open>splice(index, 1)\<close> at the first index of the topic removes
  its first occurrence.
\<close>

definition symbols_delete :: "config \<Rightarrow> string \<Rightarrow> bridge \<Rightarrow> response \<times> bridge" where
  "symbols_delete cfg param s =
     (let tpc = toUpperCase cfg param in
      if tpc \<in> set (SYMBOLS s)
      then (let s1 = s\<lparr>SYMBOLS := remove1 tpc (SYMBOLS s)\<rparr>;
                s2 = (if is_open s1 then unsubscribeFromSymbol tpc s1 else s1)
            in (Json200 (''Removed '' @ tpc) (SYMBOLS s2), s2))
      else (Json404 ''Symbol not found'', s))"

section \<open>Forwarding to the webhook\<close>

text \<open>
  \<open>sendToN8n\<close>, with the time of the call and what the post ends with. Without a webhook
  URL it returns at once. Otherwise it posts once; when the promise resolves, the log line
  takes \<open>headline?.substring\<close> and the sent counter goes up; a rejection, or a throw of
  that log line, lands in the \<open>catch\<close>, which counts an error.
\<close>

definition sendToN8n :: "config \<Rightarrow> news \<Rightarrow> nat \<Rightarrow> http_result \<Rightarrow> bridge \<Rightarrow> bridge" where
  "sendToN8n cfg newsData now r s =
     (case N8N_WEBHOOK_URL cfg of
        None \<Rightarrow> s
      | Some u \<Rightarrow>
          if u = [] then s
          else (let s1 = s\<lparr>posts := posts s @
                          [\<lparr>post_url = u,
                            post_payload = \<lparr>bridge_name = ''finnhub-n8n-bridge'',
                                            timestamp = now, body = newsData\<rparr>\<rparr>]\<rparr>
                in if resolves r \<and> \<not> substring_throws (headline newsData)
                   then s1\<lparr>stats := (stats s1)\<lparr>messagesSent := messagesSent (stats s1) + 1\<rparr>\<rparr>
                   else count_error s1))"

text \<open>
  The object literal \<open>transformedNews\<close>, for a parsed object and the time of the call. It
  is built after the log line, so the conversion of the symbol in the synthesized id does
  not throw here.
\<close>

definition transformedNews :: "json \<Rightarrow> nat \<Rightarrow> news" where
  "transformedNews message now =
     \<lparr>type_field = ''news'',
      symbol = js_get message ''symbol'',
      headline = js_get message ''headline'',
      summary = js_or (js_get message ''summary'') (Some (JStr [])),
      source = js_or (js_get message ''source'') (Some (JStr ''FinHub'')),
      url = js_get message ''url'',
      image_field = js_get message ''image'',
      datetime = js_get message ''datetime'',
      category = js_or (js_get message ''category'') (Some (JStr ''general'')),
      id_field = js_or (js_get message ''id'')
                   (Some (JStr (template_str (js_get message ''symbol'') @ ''-'' @ digits now))),
      related = js_or (js_get message ''related'') (js_get message ''symbol'')\<rparr>"

section \<open>The connection manager\<close>

text \<open>
  \<open>connectToFinnhub\<close>: a current socket that is not closed is terminated and forgotten;
  without an API key nothing more happens; otherwise a new socket to the feed's URL, still
  connecting, becomes the current one and the connected flag is cleared. Sockets are
  numbered in the order of their creation.
\<close>

definition connectToFinnhub :: "config \<Rightarrow> bridge \<Rightarrow> bridge" where
  "connectToFinnhub cfg s =
     (let s1 = (case ws s of
                  None \<Rightarrow> s
                | Some sock \<Rightarrow>
                    if readyState sock \<noteq> CLOSED
                    then s\<lparr>ws := None, terminated := terminated s @ [sock_id sock]\<rparr>
                    else s)
      in if \<not> env_set (FINNHUB_API_KEY cfg) then s1
         else s1\<lparr>ws := Some \<lparr>sock_id = next_socket s1, readyState = CONNECTING\<rparr>,
                 stats := (stats s1)\<lparr>connected := False\<rparr>,
                 next_socket := next_socket s1 + 1\<rparr>)"

text \<open>The \<open>open\<close> handler, with the value of \<open>Date.now()\<close>.\<close>

definition on_open :: "nat \<Rightarrow> bridge \<Rightarrow> bridge" where
  "on_open now s =
     s\<lparr>stats := (stats s)\<lparr>connected := True, connectionTime := Some now\<rparr>,
       reconnectAttempts := 0,
       timers := timers s @ [(1000, Call_subscribeToAllSymbols)]\<rparr>"

text \<open>
  The \<open>message\<close> handler. \<open>JSON.parse\<close> either throws or gives a value. The three clock
  readings are those of \<open>lastMessage\<close>, of the synthesized id and of the posted body.
  The log line of the news branch takes \<open>message.headline?.substring\<close> and converts
  \<open>message.symbol\<close> to a string; either may throw, and the \<open>catch\<close> then counts an
  error before anything is built. \<open>sendToN8n\<close> is not awaited: its completion is folded
  into the handler's step.
\<close>

datatype raw = Malformed | Parsed json

record times =
  t_received :: nat
  t_id :: nat
  t_sent :: nat

definition on_message :: "config \<Rightarrow> raw \<Rightarrow> times \<Rightarrow> http_result \<Rightarrow> bridge \<Rightarrow> bridge" where
  "on_message cfg data tm r s =
     (case data of
        Malformed \<Rightarrow> count_error s
      | Parsed message \<Rightarrow>
          (let s1 = s\<lparr>stats := (stats s)\<lparr>messagesReceived := messagesReceived (stats s) + 1,
                                          lastMessage := Some (t_received tm)\<rparr>\<rparr>
           in if message = JNull then count_error s1
              else if js_get message ''type'' = Some (JStr ''news'') then
                (if substring_throws (js_get message ''headline'') \<or>
                    template_throws (js_get message ''symbol'')
                 then count_error s1
                 else sendToN8n cfg (transformedNews message (t_id tm)) (t_sent tm) r s1)
              else if js_get message ''type'' = Some (JStr ''ping'') then
                (case ws_send Pong s1 of Threw \<Rightarrow> count_error s1 | Val s2 \<Rightarrow> s2)
              else s1))"

definition on_error :: "bridge \<Rightarrow> bridge" where
  "on_error s =
     s\<lparr>stats := (stats s)\<lparr>errors := errors (stats s) + 1, connected := False\<rparr>\<rparr>"

definition on_close :: "bridge \<Rightarrow> bridge" where
  "on_close s =
     (let s1 = s\<lparr>stats := (stats s)\<lparr>connected := False\<rparr>\<rparr>
      in if reconnectAttempts s1 < MAX_RECONNECT_ATTEMPTS
         then s1\<lparr>reconnectAttempts := reconnectAttempts s1 + 1,
                 timers := timers s1 @
                   [(min (BASE_RECONNECT_DELAY * 2 ^ reconnectAttempts s1) 30000,
                     Call_connectToFinnhub)]\<rparr>
         else s1)"

text \<open>\<open>POST /restart\<close>.\<close>

definition restart :: "config \<Rightarrow> bridge \<Rightarrow> bridge" where
  "restart cfg s = connectToFinnhub cfg (s\<lparr>reconnectAttempts := 0\<rparr>)"

text \<open>The body of the 30 second interval.\<close>

definition keep_alive :: "bridge \<Rightarrow> bridge" where
  "keep_alive s =
     (case ws s of
        None \<Rightarrow> s
      | Some sock \<Rightarrow>
          if readyState sock = OPEN then s\<lparr>pings := pings s @ [sock_id sock]\<rparr> else s)"

text \<open>A timer set by \<open>setTimeout\<close> fires: its callback runs on the state of that moment.\<close>

fun fire :: "config \<Rightarrow> callback \<Rightarrow> bridge \<Rightarrow> bridge" where
  "fire cfg Call_subscribeToAllSymbols s = subscribeToAllSymbols s"
| "fire cfg Call_connectToFinnhub s = connectToFinnhub cfg s"

section \<open>The event loop\<close>

text \<open>
  The socket library moves the ready state of a socket before it emits the event; the
  process sees that only on the socket \<open>ws\<close> still points to.
\<close>

definition becomes :: "nat \<Rightarrow> ready_state \<Rightarrow> bridge \<Rightarrow> bridge" where
  "becomes sid r s =
     (case ws s of
        None \<Rightarrow> s
      | Some sock \<Rightarrow> if sock_id sock = sid then s\<lparr>ws := Some (sock\<lparr>readyState := r\<rparr>)\<rparr> else s)"

text \<open>
  One task of the single-threaded loop: an event of the socket with the given number, a
  timer or the interval firing, or a request to an endpoint.
\<close>

datatype event =
    Opened nat nat
  | Message nat raw times http_result
  | Errored nat
  | Closed nat
  | Timeout callback
  | Interval
  | Add "json option"
  | Delete string
  | Restart

fun step :: "config \<Rightarrow> bridge \<Rightarrow> event \<Rightarrow> bridge" where
  "step cfg s (Opened sid now) = on_open now (becomes sid OPEN s)"
| "step cfg s (Message sid data tm r) = on_message cfg data tm r s"
| "step cfg s (Errored sid) = on_error (becomes sid CLOSING s)"
| "step cfg s (Closed sid) = on_close (becomes sid CLOSED s)"
| "step cfg s (Timeout cb) = fire cfg cb s"
| "step cfg s Interval = keep_alive s"
| "step cfg s (Add b) = snd (symbols_add cfg b s)"
| "step cfg s (Delete p) = snd (symbols_delete cfg p s)"
| "step cfg s Restart = restart cfg s"

definition run :: "config \<Rightarrow> bridge \<Rightarrow> event list \<Rightarrow> bridge" where
  "run cfg s es = foldl (step cfg) s es"

text \<open>The callback of \<open>app.listen\<close>: the first connection.\<close>

definition startup :: "config \<Rightarrow> bridge" where
  "startup cfg = connectToFinnhub cfg (initial cfg)"

section \<open>Sequences of failures\<close>

text \<open>
  A run of consecutive connection failures is made of closes, socket errors and reconnect
  timers firing, with no successful open and no manual restart in between.
\<close>

fun is_close :: "event \<Rightarrow> bool" where
  "is_close (Closed sid) = True"
| "is_close e = False"

fun failure_event :: "event \<Rightarrow> bool" where
  "failure_event (Closed sid) = True"
| "failure_event (Errored sid) = True"
| "failure_event (Timeout Call_connectToFinnhub) = True"
| "failure_event e = False"

fun is_opened :: "event \<Rightarrow> bool" where
  "is_opened (Opened sid now) = True"
| "is_opened e = False"

text \<open>The timers the backoff rule asks for after \<open>n\<close> closes.\<close>

definition backoff :: "nat \<Rightarrow> (nat \<times> callback) list" where
  "backoff n = map (\<lambda>k. (min (2000 * 2 ^ k) 30000, Call_connectToFinnhub)) [0..<min n 10]"

section \<open>Example configurations and traces\<close>

text \<open>
  Every variable set but the topic list; the runtime's string functions as they act on
  ASCII strings.
\<close>

definition cfg0 :: config where
  "cfg0 = \<lparr>FINNHUB_API_KEY = Some ''key'', N8N_WEBHOOK_URL = Some ''http://n8n.local/webhook'',
           SYMBOLS_env = None, toUpperCase = ascii_toUpperCase, trim = ascii_trim\<rparr>"

text \<open>A configured topic list naming a topic twice, one of 50 topics, one of 51.\<close>

definition cfg_twice :: config where
  "cfg_twice = cfg0\<lparr>SYMBOLS_env := Some ''AAPL,AAPL''\<rparr>"

definition cfg_full :: config where
  "cfg_full = cfg0\<lparr>SYMBOLS_env := Some
     ''A,B,C,D,E,F,G,H,I,J,K,L,M,N,O,P,Q,R,S,T,U,V,W,X,Y,Z,AA,AB,AC,AD,AE,AF,AG,AH,AI,AJ,AK,AL,AM,AN,AO,AP,AQ,AR,AS,AT,AU,AV,AW,AX''\<rparr>"

definition cfg_many :: config where
  "cfg_many = cfg0\<lparr>SYMBOLS_env := Some
     ''A,B,C,D,E,F,G,H,I,J,K,L,M,N,O,P,Q,R,S,T,U,V,W,X,Y,Z,AA,AB,AC,AD,AE,AF,AG,AH,AI,AJ,AK,AL,AM,AN,AO,AP,AQ,AR,AS,AT,AU,AV,AW,AX,AY''\<rparr>"

text \<open>A configured list of three topics, in mixed case and with blanks.\<close>

definition cfg_three :: config where
  "cfg_three = cfg0\<lparr>SYMBOLS_env := Some ''aapl, msft ,Tsla''\<rparr>"

text \<open>The same configuration without the feed's API key, and without the webhook URL.\<close>

definition cfg_nokey :: config where
  "cfg_nokey = cfg0\<lparr>FINNHUB_API_KEY := None\<rparr>"

definition cfg_nohook :: config where
  "cfg_nohook = cfg0\<lparr>N8N_WEBHOOK_URL := None\<rparr>"

text \<open>A news frame with a type, a symbol and a headline only; a ping frame.\<close>

definition aapl_frame :: json where
  "aapl_frame =
     JObj [(''type'', JStr ''news''), (''symbol'', JStr ''AAPL''), (''headline'', JStr ''X'')]"

text \<open>A news frame whose headline is the number 5.\<close>

definition numeric_headline_frame :: json where
  "numeric_headline_frame =
     JObj [(''type'', JStr ''news''), (''symbol'', JStr ''AAPL''),
           (''headline'', JNum True ''5'')]"

definition ping_frame :: json where
  "ping_frame = JObj [(''type'', JStr ''ping'')]"

definition tm0 :: times where
  "tm0 = \<lparr>t_received = 1700000005000, t_id = 1700000005001, t_sent = 1700000005002\<rparr>"

text \<open>The process after its first connection has opened.\<close>

definition connected0 :: bridge where
  "connected0 = run cfg0 (startup cfg0) [Opened 0 1700000000000]"

text \<open>
  The first connection opens and drops at once; a manual restart brings up a second
  connection, while the timers set for the first one are still pending.
\<close>

definition stale_state :: bridge where
  "stale_state = run cfg0 (startup cfg0)
     [Opened 0 1700000000000, Closed 0, Restart, Opened 1 1700000000400]"

text \<open>The first connection drops, and each of ten reconnects fails in turn.\<close>

definition eleven_failures :: "event list" where
  "eleven_failures =
     [Closed 0,
      Timeout Call_connectToFinnhub, Errored 1, Closed 1,
      Timeout Call_connectToFinnhub, Errored 2, Closed 2,
      Timeout Call_connectToFinnhub, Errored 3, Closed 3,
      Timeout Call_connectToFinnhub, Errored 4, Closed 4,
      Timeout Call_connectToFinnhub, Errored 5, Closed 5,
      Timeout Call_connectToFinnhub, Errored 6, Closed 6,
      Timeout Call_connectToFinnhub, Errored 7, Closed 7,
      Timeout Call_connectToFinnhub, Errored 8, Closed 8,
      Timeout Call_connectToFinnhub, Errored 9, Closed 9,
      Timeout Call_connectToFinnhub, Errored 10, Closed 10]"

section \<open>The registry invariant\<close>

text \<open>
  At most 50 topics, no topic twice, every topic in upper case (so that equality of
  topics is equality after upper-casing).
\<close>

definition registry_ok :: "config \<Rightarrow> string list \<Rightarrow> bool" where
  "registry_ok cfg xs =
     (distinct xs \<and> length xs \<le> 50 \<and> list_all (\<lambda>x. toUpperCase cfg x = x) xs)"

section \<open>Basic facts\<close>

text \<open>What each operation leaves alone.\<close>

lemma becomes_fields [simp]:
  "reconnectAttempts (becomes sid r s) = reconnectAttempts s"
  "timers (becomes sid r s) = timers s"
  "stats (becomes sid r s) = stats s"
  "SYMBOLS (becomes sid r s) = SYMBOLS s"
  "frames (becomes sid r s) = frames s"
  "posts (becomes sid r s) = posts s"
  by (simp_all add: becomes_def split: option.split)

lemma connectToFinnhub_fields [simp]:
  "reconnectAttempts (connectToFinnhub cfg s) = reconnectAttempts s"
  "timers (connectToFinnhub cfg s) = timers s"
  "SYMBOLS (connectToFinnhub cfg s) = SYMBOLS s"
  "frames (connectToFinnhub cfg s) = frames s"
  "posts (connectToFinnhub cfg s) = posts s"
  by (simp_all add: connectToFinnhub_def Let_def split: option.split)

lemma on_error_fields [simp]:
  "reconnectAttempts (on_error s) = reconnectAttempts s"
  "timers (on_error s) = timers s"
  "SYMBOLS (on_error s) = SYMBOLS s"
  "frames (on_error s) = frames s"
  "posts (on_error s) = posts s"
  "ws (on_error s) = ws s"
  by (simp_all add: on_error_def)

lemma run_snoc: "run cfg s (es @ [e]) = step cfg (run cfg s es) e"
  by (simp add: run_def)

section \<open>Reconnect backoff\<close>

lemma on_close_below:
  "reconnectAttempts s < 10 \<Longrightarrow>
     reconnectAttempts (on_close s) = reconnectAttempts s + 1 \<and>
     timers (on_close s) =
       timers s @ [(min (2000 * 2 ^ reconnectAttempts s) 30000, Call_connectToFinnhub)]"
  by (simp add: on_close_def MAX_RECONNECT_ATTEMPTS_def BASE_RECONNECT_DELAY_def Let_def)

lemma on_close_ceiling:
  "10 \<le> reconnectAttempts s \<Longrightarrow>
     reconnectAttempts (on_close s) = reconnectAttempts s \<and> timers (on_close s) = timers s"
  by (simp add: on_close_def MAX_RECONNECT_ATTEMPTS_def Let_def)

lemma backoff_Suc:
  "n < 10 \<Longrightarrow> backoff (Suc n) = backoff n @ [(min (2000 * 2 ^ n) 30000, Call_connectToFinnhub)]"
  by (simp add: backoff_def min_def)

lemma backoff_ceiling: "10 \<le> n \<Longrightarrow> backoff (Suc n) = backoff n"
  by (simp add: backoff_def min_def)

lemma failures_backoff:
  assumes "list_all failure_event es" and "reconnectAttempts s = 0"
  shows "reconnectAttempts (run cfg s es) = min (length (filter is_close es)) 10 \<and>
         timers (run cfg s es) = timers s @ backoff (length (filter is_close es))"
  using assms
proof (induction es rule: rev_induct)
  case Nil
  then show ?case by (simp add: run_def backoff_def)
next
  case (snoc e es)
  let ?n = "length (filter is_close es)"
  let ?t = "run cfg s es"
  from snoc have ih: "reconnectAttempts ?t = min ?n 10" "timers ?t = timers s @ backoff ?n"
    by simp_all
  from snoc.prems have fe: "failure_event e" by simp
  show ?case
  proof (cases e)
    case (Closed sid)
    show ?thesis
    proof (cases "?n < 10")
      case True
      with ih have "reconnectAttempts (becomes sid CLOSED ?t) < 10" by simp
      from on_close_below[OF this] ih True Closed show ?thesis
        by (simp add: run_snoc backoff_Suc)
    next
      case False
      with ih have "10 \<le> reconnectAttempts (becomes sid CLOSED ?t)" by simp
      from on_close_ceiling[OF this] ih False Closed show ?thesis
        by (simp add: run_snoc backoff_ceiling)
    qed
  next
    case (Errored sid)
    with ih show ?thesis by (simp add: run_snoc)
  next
    case (Timeout cb)
    with fe have "cb = Call_connectToFinnhub" by (cases cb) simp_all
    with ih Timeout show ?thesis by (simp add: run_snoc)
  qed (use fe in simp_all)
qed

text \<open>
  Claim C1. In every run of consecutive connection failures (closes, socket errors and
  reconnect timers firing, starting with the attempt counter at 0), the close number \<open>k\<close>,
  for \<open>k\<close> from 0 to 9, sets a reconnect timer of exactly \<open>min (2000 * 2 ^ k) 30000\<close>
  milliseconds and raises the attempt counter by one; from the tenth close on the counter
  stays at 10 and no further reconnect timer is set. So after \<open>n\<close> closes the counter is
  \<open>min n 10\<close> and the timers set are those of \<open>k = 0, ..., min n 10 - 1\<close>, in this order.
  A manual restart, from any state, puts the counter back to 0.
\<close>

theorem reconnect_backoff:
  assumes "list_all failure_event es" and "reconnectAttempts s = 0"
  shows "reconnectAttempts (run cfg s es) = min (length (filter is_close es)) 10 \<and>
         timers (run cfg s es) =
           timers s @ map (\<lambda>k. (min (2000 * 2 ^ k) 30000, Call_connectToFinnhub))
                          [0..<min (length (filter is_close es)) 10] \<and>
         reconnectAttempts (step cfg s' Restart) = 0"
  using failures_backoff[OF assms, of cfg] by (simp add: backoff_def restart_def)

theorem reconnect_backoff_witness:
  "list_all failure_event eleven_failures \<and> reconnectAttempts (startup cfg0) = 0 \<and>
   reconnectAttempts (run cfg0 (startup cfg0) eleven_failures) = 10 \<and>
   timers (run cfg0 (startup cfg0) eleven_failures) =
     [(2000, Call_connectToFinnhub), (4000, Call_connectToFinnhub),
      (8000, Call_connectToFinnhub), (16000, Call_connectToFinnhub),
      (30000, Call_connectToFinnhub), (30000, Call_connectToFinnhub),
      (30000, Call_connectToFinnhub), (30000, Call_connectToFinnhub),
      (30000, Call_connectToFinnhub), (30000, Call_connectToFinnhub)] \<and>
   reconnectAttempts (step cfg0 (run cfg0 (startup cfg0) eleven_failures) Restart) = 0"
proof -
  have h1: "list_all failure_event eleven_failures"
    by (simp add: eleven_failures_def)
  have h2: "reconnectAttempts (startup cfg0) = 0"
    by (simp add: startup_def initial_def)
  have n: "length (filter is_close eleven_failures) = 11"
    by (simp add: eleven_failures_def)
  have t0: "timers (startup cfg0) = []"
    by (simp add: startup_def initial_def)
  show ?thesis
    using reconnect_backoff[OF h1 h2, of cfg0 "run cfg0 (startup cfg0) eleven_failures"] h1 h2
    by (simp add: n t0 upt_rec)
qed

section \<open>The subscription registry\<close>

lemma upper_char_idem: "upper_char (upper_char c) = upper_char c"
  by (simp add: upper_char_def)

lemma ascii_toUpperCase_idem:
  "ascii_toUpperCase (ascii_toUpperCase t) = ascii_toUpperCase t"
  by (simp add: ascii_toUpperCase_def upper_char_idem)

lemma cfg_functions [simp]:
  "toUpperCase cfg0 = ascii_toUpperCase" "trim cfg0 = ascii_trim"
  "toUpperCase cfg_twice = ascii_toUpperCase" "trim cfg_twice = ascii_trim"
  "toUpperCase cfg_full = ascii_toUpperCase" "trim cfg_full = ascii_trim"
  "toUpperCase cfg_many = ascii_toUpperCase" "trim cfg_many = ascii_trim"
  "toUpperCase cfg_three = ascii_toUpperCase" "trim cfg_three = ascii_trim"
  "toUpperCase cfg_nokey = ascii_toUpperCase" "toUpperCase cfg_nohook = ascii_toUpperCase"
  by (simp_all add: cfg0_def cfg_twice_def cfg_full_def cfg_many_def cfg_three_def
      cfg_nokey_def cfg_nohook_def)

lemma subscribeToSymbol_fields [simp]:
  "SYMBOLS (subscribeToSymbol t s) = SYMBOLS s"
  "ws (subscribeToSymbol t s) = ws s"
  "stats (subscribeToSymbol t s) = stats s"
  "reconnectAttempts (subscribeToSymbol t s) = reconnectAttempts s"
  "timers (subscribeToSymbol t s) = timers s"
  "posts (subscribeToSymbol t s) = posts s"
  by (simp_all add: subscribeToSymbol_def split: option.split)

lemma unsubscribeFromSymbol_fields [simp]:
  "SYMBOLS (unsubscribeFromSymbol t s) = SYMBOLS s"
  "ws (unsubscribeFromSymbol t s) = ws s"
  "stats (unsubscribeFromSymbol t s) = stats s"
  by (simp_all add: unsubscribeFromSymbol_def split: option.split)

lemma subscribe_fold_fields [simp]:
  "SYMBOLS (foldl (\<lambda>a t. subscribeToSymbol t a) s xs) = SYMBOLS s"
  "ws (foldl (\<lambda>a t. subscribeToSymbol t a) s xs) = ws s"
  "stats (foldl (\<lambda>a t. subscribeToSymbol t a) s xs) = stats s"
  "reconnectAttempts (foldl (\<lambda>a t. subscribeToSymbol t a) s xs) = reconnectAttempts s"
  "timers (foldl (\<lambda>a t. subscribeToSymbol t a) s xs) = timers s"
  "posts (foldl (\<lambda>a t. subscribeToSymbol t a) s xs) = posts s"
  by (induction xs arbitrary: s; simp)+

lemma subscribeToAllSymbols_fields [simp]:
  "SYMBOLS (subscribeToAllSymbols s) = SYMBOLS s"
  "ws (subscribeToAllSymbols s) = ws s"
  "stats (subscribeToAllSymbols s) = stats s"
  "reconnectAttempts (subscribeToAllSymbols s) = reconnectAttempts s"
  "timers (subscribeToAllSymbols s) = timers s"
  "posts (subscribeToAllSymbols s) = posts s"
  by (simp_all add: subscribeToAllSymbols_def)

lemma sendToN8n_fields [simp]:
  "SYMBOLS (sendToN8n cfg n t r s) = SYMBOLS s"
  "ws (sendToN8n cfg n t r s) = ws s"
  "frames (sendToN8n cfg n t r s) = frames s"
  "reconnectAttempts (sendToN8n cfg n t r s) = reconnectAttempts s"
  "timers (sendToN8n cfg n t r s) = timers s"
  by (simp_all add: sendToN8n_def count_error_def Let_def split: option.split)

lemma ws_send_fields:
  "ws_send f s = Val s' \<Longrightarrow> SYMBOLS s' = SYMBOLS s \<and> ws s' = ws s \<and> stats s' = stats s"
  by (auto simp add: ws_send_def split: option.splits ready_state.splits)

lemma on_message_SYMBOLS [simp]: "SYMBOLS (on_message cfg d tm r s) = SYMBOLS s"
  by (auto simp add: on_message_def count_error_def Let_def dest: ws_send_fields
      split: raw.split thrown.split)

lemma other_SYMBOLS [simp]:
  "SYMBOLS (on_open now s) = SYMBOLS s"
  "SYMBOLS (on_close s) = SYMBOLS s"
  "SYMBOLS (keep_alive s) = SYMBOLS s"
  "SYMBOLS (restart cfg s) = SYMBOLS s"
  "SYMBOLS (fire cfg cb s) = SYMBOLS s"
  by (cases cb; simp add: on_open_def on_close_def keep_alive_def restart_def Let_def
      split: option.split)+

lemma symbols_add_SYMBOLS:
  "SYMBOLS (snd (symbols_add cfg b s)) =
     (case b of
        Some (JStr t) \<Rightarrow>
          if t \<noteq> [] \<and> toUpperCase cfg t \<notin> set (SYMBOLS s) \<and> length (SYMBOLS s) < 50
          then SYMBOLS s @ [toUpperCase cfg t] else SYMBOLS s
      | _ \<Rightarrow> SYMBOLS s)"
  by (simp add: symbols_add_def Let_def split: option.split json.split)

lemma symbols_delete_SYMBOLS:
  "SYMBOLS (snd (symbols_delete cfg p s)) = remove1 (toUpperCase cfg p) (SYMBOLS s)"
  by (simp add: symbols_delete_def Let_def remove1_idem)

text \<open>
  The invariant is kept by an add because upper-casing an upper-cased string changes
  nothing; that is a property of the runtime's function, and a premise here.
\<close>

lemma registry_ok_add:
  assumes "registry_ok cfg (SYMBOLS s)"
    and "\<And>t. toUpperCase cfg (toUpperCase cfg t) = toUpperCase cfg t"
  shows "registry_ok cfg (SYMBOLS (snd (symbols_add cfg b s)))"
  using assms
  by (auto simp add: symbols_add_SYMBOLS registry_ok_def split: option.split json.split)

lemma registry_ok_delete:
  "registry_ok cfg (SYMBOLS s) \<Longrightarrow> registry_ok cfg (SYMBOLS (snd (symbols_delete cfg p s)))"
  unfolding symbols_delete_SYMBOLS registry_ok_def
  by (auto simp add: list_all_iff length_remove1 dest: notin_set_remove1)

lemma registry_ok_step:
  assumes "registry_ok cfg (SYMBOLS s)"
    and "\<And>t. toUpperCase cfg (toUpperCase cfg t) = toUpperCase cfg t"
  shows "registry_ok cfg (SYMBOLS (step cfg s e))"
  using assms(1) by (cases e) (simp_all add: registry_ok_add[OF _ assms(2)] registry_ok_delete)

lemma registry_ok_run:
  assumes "registry_ok cfg (SYMBOLS s)"
    and "\<And>t. toUpperCase cfg (toUpperCase cfg t) = toUpperCase cfg t"
  shows "registry_ok cfg (SYMBOLS (run cfg s es))"
proof (induction es rule: rev_induct)
  case Nil
  from assms(1) show ?case by (simp add: run_def)
next
  case (snoc e es)
  from registry_ok_step[OF snoc.IH assms(2)] show ?case by (simp add: run_snoc)
qed

lemma distinct_cap_step:
  assumes "distinct (SYMBOLS s) \<and> length (SYMBOLS s) \<le> 50"
  shows "distinct (SYMBOLS (step cfg s e)) \<and> length (SYMBOLS (step cfg s e)) \<le> 50"
  using assms
  by (cases e)
     (auto simp add: symbols_add_SYMBOLS symbols_delete_SYMBOLS length_remove1
       split: option.split json.split)

lemma distinct_cap_run:
  assumes "distinct (SYMBOLS s) \<and> length (SYMBOLS s) \<le> 50"
  shows "distinct (SYMBOLS (run cfg s es)) \<and> length (SYMBOLS (run cfg s es)) \<le> 50"
proof (induction es rule: rev_induct)
  case Nil
  from assms show ?case by (simp add: run_def)
next
  case (snoc e es)
  from distinct_cap_step[OF snoc.IH] show ?case by (simp add: run_snoc)
qed

lemma registry_ok_bounds:
  "registry_ok cfg xs \<Longrightarrow> length xs \<le> 50 \<and> distinct (map (toUpperCase cfg) xs)"
  by (simp add: registry_ok_def list_all_iff map_idI)

lemma upper_msft: "ascii_toUpperCase ''msft'' = ''MSFT''"
  by (simp add: ascii_toUpperCase_def upper_char_def)

lemma upper_aapl: "ascii_toUpperCase ''aapl'' = ''AAPL''"
  by (simp add: ascii_toUpperCase_def upper_char_def)

lemma SYMBOLS_default: "SYMBOLS (startup cfg0) = [''AAPL'']"
  by (simp add: startup_def initial_def cfg0_def initial_SYMBOLS_def)

lemma SYMBOLS_twice: "SYMBOLS (startup cfg_twice) = [''AAPL'', ''AAPL'']"
  by (simp add: startup_def initial_def cfg_twice_def cfg0_def initial_SYMBOLS_def
      ascii_trim_def is_space_def ascii_toUpperCase_def upper_char_def)

lemma SYMBOLS_full: "length (SYMBOLS (startup cfg_full)) = 50"
  by (simp add: startup_def initial_def cfg_full_def cfg0_def initial_SYMBOLS_def)

lemma SYMBOLS_many: "length (SYMBOLS (startup cfg_many)) = 51"
  by (simp add: startup_def initial_def cfg_many_def cfg0_def initial_SYMBOLS_def)

text \<open>
  Claim C2, as stated, fails: the registry starts from the configured topic list, which
  is split, trimmed and upper-cased but neither deduplicated nor capped. With
  \<open>SYMBOLS=AAPL,AAPL\<close> the registry holds AAPL twice, before and after an add of
  \<open>msft\<close>; with a list of 51 topics it holds 51 topics, before and after a remove.
\<close>

theorem registry_unchecked_start:
  "\<not> distinct (map (toUpperCase cfg_twice)
        (SYMBOLS (run cfg_twice (startup cfg_twice) [Add (Some (JStr ''msft''))]))) \<and>
   \<not> length (SYMBOLS (run cfg_many (startup cfg_many) [Delete ''msft''])) \<le> 50"
proof -
  have a: "SYMBOLS (run cfg_twice (startup cfg_twice) [Add (Some (JStr ''msft''))]) =
           [''AAPL'', ''AAPL'', ''MSFT'']"
    by (simp add: run_def symbols_add_SYMBOLS SYMBOLS_twice upper_msft)
  have b: "ascii_toUpperCase ''msft'' \<notin> set (SYMBOLS (startup cfg_many))"
    by (simp add: upper_msft startup_def initial_def cfg_many_def cfg0_def
        initial_SYMBOLS_def ascii_trim_def is_space_def ascii_toUpperCase_def upper_char_def)
  have c: "SYMBOLS (run cfg_many (startup cfg_many) [Delete ''msft'']) =
           SYMBOLS (startup cfg_many)"
    using b by (simp add: run_def symbols_delete_SYMBOLS remove1_idem)
  show ?thesis by (simp add: a c SYMBOLS_many)
qed

text \<open>
  Claim C2, amended. For every sequence of add and remove operations (and of any other
  events of the process) applied to a registry that holds at most 50 pairwise distinct
  upper-case topics, the registry never contains more than 50 topics and never contains a
  topic twice, nor two topics that are equal after upper-casing (upper-casing being the
  runtime's function, under which an upper-cased string is its own upper-casing); an add
  of a topic that is already present (after upper-casing) or that meets a registry of 50
  or more topics leaves the whole state unchanged and fails with status 400.
\<close>

theorem registry_bounded:
  assumes "registry_ok cfg (SYMBOLS s)"
  shows "length (SYMBOLS (run cfg s es)) \<le> 50 \<and>
         distinct (SYMBOLS (run cfg s es)) \<and>
         ((\<forall>x. toUpperCase cfg (toUpperCase cfg x) = toUpperCase cfg x) \<longrightarrow>
            distinct (map (toUpperCase cfg) (SYMBOLS (run cfg s es)))) \<and>
         (toUpperCase cfg t \<in> set (SYMBOLS s) \<or> 50 \<le> length (SYMBOLS s) \<longrightarrow>
            symbols_add cfg (Some (JStr t)) s =
              (Json400 ''Invalid symbol or limit reached (50 max)'', s))"
proof -
  from assms have "distinct (SYMBOLS s) \<and> length (SYMBOLS s) \<le> 50"
    by (simp add: registry_ok_def)
  from distinct_cap_run[OF this, of cfg es]
  have a: "length (SYMBOLS (run cfg s es)) \<le> 50" "distinct (SYMBOLS (run cfg s es))"
    by simp_all
  have b: "distinct (map (toUpperCase cfg) (SYMBOLS (run cfg s es)))"
    if "\<forall>x. toUpperCase cfg (toUpperCase cfg x) = toUpperCase cfg x"
    using registry_ok_bounds[OF registry_ok_run[OF assms, of es]] that by simp
  have c: "toUpperCase cfg t \<in> set (SYMBOLS s) \<or> 50 \<le> length (SYMBOLS s) \<longrightarrow>
            symbols_add cfg (Some (JStr t)) s =
              (Json400 ''Invalid symbol or limit reached (50 max)'', s)"
    by (auto simp add: symbols_add_def)
  from a b c show ?thesis by blast
qed

theorem registry_bounded_witness:
  "registry_ok cfg0 (SYMBOLS (startup cfg0)) \<and>
   (\<forall>x. toUpperCase cfg0 (toUpperCase cfg0 x) = toUpperCase cfg0 x) \<and>
   toUpperCase cfg0 ''aapl'' \<in> set (SYMBOLS (startup cfg0)) \<and>
   length (SYMBOLS (run cfg0 (startup cfg0)
      [Add (Some (JStr ''msft'')), Add (Some (JStr ''aapl'')), Delete ''aapl''])) \<le> 50 \<and>
   distinct (SYMBOLS (run cfg0 (startup cfg0)
      [Add (Some (JStr ''msft'')), Add (Some (JStr ''aapl'')), Delete ''aapl''])) \<and>
   distinct (map (toUpperCase cfg0) (SYMBOLS (run cfg0 (startup cfg0)
      [Add (Some (JStr ''msft'')), Add (Some (JStr ''aapl'')), Delete ''aapl'']))) \<and>
   symbols_add cfg0 (Some (JStr ''aapl'')) (startup cfg0) =
     (Json400 ''Invalid symbol or limit reached (50 max)'', startup cfg0)"
proof -
  have h: "registry_ok cfg0 (SYMBOLS (startup cfg0))"
    by (simp add: SYMBOLS_default registry_ok_def ascii_toUpperCase_def upper_char_def)
  have i: "\<forall>x. toUpperCase cfg0 (toUpperCase cfg0 x) = toUpperCase cfg0 x"
    by (simp add: ascii_toUpperCase_idem)
  have m: "toUpperCase cfg0 ''aapl'' \<in> set (SYMBOLS (startup cfg0))"
    by (simp add: SYMBOLS_default upper_aapl)
  from registry_bounded[OF h, of
        "[Add (Some (JStr ''msft'')), Add (Some (JStr ''aapl'')), Delete ''aapl'']" "''aapl''"]
    h i m
  show ?thesis by blast
qed

text \<open>
  Claim C9, as stated, fails: an add of a topic already present and an add to a registry
  of 50 topics get the very same answer, status 400 with the one error text.
\<close>

theorem add_errors_merged:
  "fst (symbols_add cfg0 (Some (JStr ''aapl'')) (startup cfg0)) =
     Json400 ''Invalid symbol or limit reached (50 max)'' \<and>
   fst (symbols_add cfg_full (Some (JStr ''msft'')) (startup cfg_full)) =
     Json400 ''Invalid symbol or limit reached (50 max)''"
  by (simp add: symbols_add_def SYMBOLS_default SYMBOLS_full upper_aapl)

text \<open>
  Claim C9, amended. The add operation on a string topic has two outcomes: ok (status
  200, the topic appended in upper case) when the topic is not empty, is not present after
  upper-casing and fewer than 50 topics are held; and otherwise one merged error (status
  400, "Invalid symbol or limit reached (50 max)"), which does not tell an empty symbol,
  a duplicate and a full registry apart. A request without a symbol gets that same error.
  The upper-casing is the runtime's, whatever it does to the topic.
\<close>

theorem add_outcomes:
  "fst (symbols_add cfg (Some (JStr t)) s) =
     (if t \<noteq> [] \<and> toUpperCase cfg t \<notin> set (SYMBOLS s) \<and> length (SYMBOLS s) < 50
      then Json200 (''Added '' @ toUpperCase cfg t) (SYMBOLS s @ [toUpperCase cfg t])
      else Json400 ''Invalid symbol or limit reached (50 max)'') \<and>
   fst (symbols_add cfg None s) = Json400 ''Invalid symbol or limit reached (50 max)''"
  by (simp add: symbols_add_def Let_def)

section \<open>News frames and the webhook\<close>

lemma connected0_eq:
  "connected0 =
     \<lparr>SYMBOLS = [''AAPL''], ws = Some \<lparr>sock_id = 0, readyState = OPEN\<rparr>,
      reconnectAttempts = 0,
      stats = \<lparr>connected = True, lastMessage = None, messagesReceived = 0,
               messagesSent = 0, connectionTime = Some 1700000000000, errors = 0\<rparr>,
      next_socket = 1, frames = [], pings = [], terminated = [],
      timers = [(1000, Call_subscribeToAllSymbols)], posts = []\<rparr>"
  by (simp add: connected0_def run_def startup_def initial_def cfg0_def initial_SYMBOLS_def
      connectToFinnhub_def env_set_def becomes_def on_open_def)

lemma transformed_plain:
  assumes "map_of kvs =
             [''type'' \<mapsto> JStr ''news'', ''symbol'' \<mapsto> JStr tp, ''headline'' \<mapsto> JStr h]"
  shows "transformedNews (JObj kvs) now =
      \<lparr>type_field = ''news'', symbol = Some (JStr tp), headline = Some (JStr h),
       summary = Some (JStr []), source = Some (JStr ''FinHub''), url = None,
       image_field = None, datetime = None, category = Some (JStr ''general''),
       id_field = Some (JStr (tp @ ''-'' @ digits now)), related = Some (JStr tp)\<rparr>"
  by (simp add: transformedNews_def js_or_def assms template_str_def del: digits.simps)

lemma digits_example: "digits 1700000005001 = ''1700000005001''"
  by (simp add: digit_char_def)

text \<open>
  Claim C3, as stated, fails in one field: for the frame with symbol AAPL and headline X
  the \<open>related\<close> field of the transformed event is the topic itself, the string AAPL, and
  not the list containing it.
\<close>

theorem related_is_topic:
  "related (transformedNews aapl_frame 1700000005001) = Some (JStr ''AAPL'') \<and>
   related (transformedNews aapl_frame 1700000005001) \<noteq> Some (JArr [JStr ''AAPL''])"
  by (simp add: transformedNews_def aapl_frame_def js_or_def)

text \<open>
  Claim C3, amended. For every inbound news frame carrying only a type, a symbol and a
  headline (strings), the transformer produces an event with summary the empty string,
  source the fixed platform name FinHub, category "general", id the topic followed by "-"
  and the current time in milliseconds, and related equal to the event's own topic (the
  string itself, not a list). With a webhook URL configured and the sink answering 200,
  the handler posts the event exactly once, the sent counter goes up by 1 and the error
  counter is unchanged (of the state, only the received counter, the last message time,
  the sent counter and the log of posts change).
\<close>

theorem news_forwarded:
  assumes "map_of kvs =
             [''type'' \<mapsto> JStr ''news'', ''symbol'' \<mapsto> JStr tp, ''headline'' \<mapsto> JStr h]"
    and "N8N_WEBHOOK_URL cfg = Some u" and "u \<noteq> []"
  shows "transformedNews (JObj kvs) now =
      \<lparr>type_field = ''news'', symbol = Some (JStr tp), headline = Some (JStr h),
       summary = Some (JStr []), source = Some (JStr ''FinHub''), url = None,
       image_field = None, datetime = None, category = Some (JStr ''general''),
       id_field = Some (JStr (tp @ ''-'' @ digits now)), related = Some (JStr tp)\<rparr> \<and>
     on_message cfg (Parsed (JObj kvs)) tm (Response 200) s =
       s\<lparr>stats := (stats s)\<lparr>messagesReceived := messagesReceived (stats s) + 1,
                             lastMessage := Some (t_received tm),
                             messagesSent := messagesSent (stats s) + 1\<rparr>,
         posts := posts s @
           [\<lparr>post_url = u,
             post_payload = \<lparr>bridge_name = ''finnhub-n8n-bridge'', timestamp = t_sent tm,
                             body = transformedNews (JObj kvs) (t_id tm)\<rparr>\<rparr>]\<rparr>"
  using assms(2,3)
  by (simp add: transformed_plain[OF assms(1)] on_message_def sendToN8n_def Let_def assms(1)
      template_throws_def del: digits.simps)

theorem news_forwarded_witness:
  "map_of [(''type'', JStr ''news''), (''symbol'', JStr ''AAPL''), (''headline'', JStr ''X'')] =
     [''type'' \<mapsto> JStr ''news'', ''symbol'' \<mapsto> JStr ''AAPL'', ''headline'' \<mapsto> JStr ''X''] \<and>
   N8N_WEBHOOK_URL cfg0 = Some ''http://n8n.local/webhook'' \<and>
   ''http://n8n.local/webhook'' \<noteq> [] \<and>
   transformedNews aapl_frame 1700000005001 =
      \<lparr>type_field = ''news'', symbol = Some (JStr ''AAPL''), headline = Some (JStr ''X''),
       summary = Some (JStr []), source = Some (JStr ''FinHub''), url = None,
       image_field = None, datetime = None, category = Some (JStr ''general''),
       id_field = Some (JStr ''AAPL-1700000005001''), related = Some (JStr ''AAPL'')\<rparr> \<and>
   posts (on_message cfg0 (Parsed aapl_frame) tm0 (Response 200) connected0) =
     [\<lparr>post_url = ''http://n8n.local/webhook'',
       post_payload = \<lparr>bridge_name = ''finnhub-n8n-bridge'', timestamp = 1700000005002,
                       body = transformedNews aapl_frame 1700000005001\<rparr>\<rparr>] \<and>
   messagesSent (stats (on_message cfg0 (Parsed aapl_frame) tm0 (Response 200) connected0)) = 1 \<and>
   errors (stats (on_message cfg0 (Parsed aapl_frame) tm0 (Response 200) connected0)) = 0"
proof -
  have m: "map_of [(''type'', JStr ''news''), (''symbol'', JStr ''AAPL''),
                   (''headline'', JStr ''X'')] =
     [''type'' \<mapsto> JStr ''news'', ''symbol'' \<mapsto> JStr ''AAPL'', ''headline'' \<mapsto> JStr ''X'']"
    by (rule ext) simp
  have u: "N8N_WEBHOOK_URL cfg0 = Some ''http://n8n.local/webhook''"
    by (simp add: cfg0_def)
  have n: "''http://n8n.local/webhook'' \<noteq> []" by simp
  note t = news_forwarded[OF m u n, of _ tm0 connected0]
  show ?thesis
    using t[of 1700000005001] m u
    by (simp add: aapl_frame_def tm0_def connected0_eq digits_example del: digits.simps)
qed

text \<open>
  Claim C5. With a webhook URL configured, for every event whose post does not end in a
  2xx response (another status, or no response at all), \<open>sendToN8n\<close> has posted exactly
  once and changes nothing else but the error counter, which goes up by exactly 1: the
  sent counter, the current socket, the connected flag, the attempt counter and the timers
  are as before, so nothing is retried and the connection stays as it was.
\<close>

theorem delivery_failure:
  assumes "N8N_WEBHOOK_URL cfg = Some u" and "u \<noteq> []" and "\<not> resolves r"
  shows "sendToN8n cfg ev now r s =
           s\<lparr>stats := (stats s)\<lparr>errors := errors (stats s) + 1\<rparr>,
             posts := posts s @
               [\<lparr>post_url = u,
                 post_payload = \<lparr>bridge_name = ''finnhub-n8n-bridge'', timestamp = now,
                                 body = ev\<rparr>\<rparr>]\<rparr>"
  using assms by (simp add: sendToN8n_def Let_def count_error_def)

theorem delivery_failure_witness:
  "N8N_WEBHOOK_URL cfg0 = Some ''http://n8n.local/webhook'' \<and>
   ''http://n8n.local/webhook'' \<noteq> [] \<and> \<not> resolves (Response 500) \<and>
   length (posts (sendToN8n cfg0 (transformedNews aapl_frame 1700000005001)
                    1700000005002 (Response 500) connected0)) = 1 \<and>
   errors (stats (sendToN8n cfg0 (transformedNews aapl_frame 1700000005001)
                    1700000005002 (Response 500) connected0)) = 1 \<and>
   messagesSent (stats (sendToN8n cfg0 (transformedNews aapl_frame 1700000005001)
                    1700000005002 (Response 500) connected0)) = 0 \<and>
   connected (stats (sendToN8n cfg0 (transformedNews aapl_frame 1700000005001)
                    1700000005002 (Response 500) connected0)) = True \<and>
   ws (sendToN8n cfg0 (transformedNews aapl_frame 1700000005001)
         1700000005002 (Response 500) connected0) = Some \<lparr>sock_id = 0, readyState = OPEN\<rparr>"
proof -
  have u: "N8N_WEBHOOK_URL cfg0 = Some ''http://n8n.local/webhook''"
    by (simp add: cfg0_def)
  have n: "''http://n8n.local/webhook'' \<noteq> []" by simp
  have r: "\<not> resolves (Response 500)" by simp
  show ?thesis
    using delivery_failure[OF u n r, of "transformedNews aapl_frame 1700000005001"
        1700000005002 connected0] u
    by (simp add: connected0_eq)
qed

text \<open>
  Claim C10, as stated, fails for the error counter: a news frame whose headline is a
  number makes the log line of the news branch throw, and the \<open>catch\<close> counts an error,
  with or without a webhook URL.
\<close>

theorem unsent_news_counts_error:
  "js_get numeric_headline_frame ''type'' = Some (JStr ''news'') \<and>
   \<not> env_set (N8N_WEBHOOK_URL cfg_nohook) \<and>
   errors (stats connected0) = 0 \<and>
   errors (stats (on_message cfg_nohook (Parsed numeric_headline_frame) tm0 (Response 200)
                    connected0)) = 1"
  by (simp add: numeric_headline_frame_def cfg_nohook_def cfg0_def env_set_def connected0_eq
      on_message_def Let_def count_error_def)

text \<open>
  Claim C10, amended. While the webhook URL is not configured (unset or empty),
  \<open>sendToN8n\<close> leaves the whole state as it is for every event, and for every inbound
  news frame no post is made and the sent counter does not move. The error counter does
  not move either when the log line of the news branch does not throw, that is when the
  headline is a string, null or absent and the symbol converts to a string: then only the
  received counter and the last message time change. When the log line throws, the frame
  counts as one error.
\<close>

theorem no_webhook_no_delivery:
  assumes "\<not> env_set (N8N_WEBHOOK_URL cfg)"
  shows "sendToN8n cfg ev now r s = s \<and>
         (js_get message ''type'' = Some (JStr ''news'') \<longrightarrow>
            posts (on_message cfg (Parsed message) tm r s) = posts s \<and>
            messagesSent (stats (on_message cfg (Parsed message) tm r s)) =
              messagesSent (stats s)) \<and>
         (js_get message ''type'' = Some (JStr ''news'') \<and>
          \<not> substring_throws (js_get message ''headline'') \<and>
          \<not> template_throws (js_get message ''symbol'') \<longrightarrow>
            on_message cfg (Parsed message) tm r s =
              s\<lparr>stats := (stats s)\<lparr>messagesReceived := messagesReceived (stats s) + 1,
                                    lastMessage := Some (t_received tm)\<rparr>\<rparr>) \<and>
         (js_get message ''type'' = Some (JStr ''news'') \<and>
          (substring_throws (js_get message ''headline'') \<or>
           template_throws (js_get message ''symbol'')) \<longrightarrow>
            on_message cfg (Parsed message) tm r s =
              s\<lparr>stats := (stats s)\<lparr>messagesReceived := messagesReceived (stats s) + 1,
                                    lastMessage := Some (t_received tm),
                                    errors := errors (stats s) + 1\<rparr>\<rparr>)"
proof -
  have a: "sendToN8n cfg ev now r s = s" for ev now s
    using assms by (simp add: sendToN8n_def env_set_def split: option.splits)
  show ?thesis
    by (auto simp add: a on_message_def Let_def count_error_def)
qed

theorem no_webhook_no_delivery_witness:
  "\<not> env_set (N8N_WEBHOOK_URL cfg_nohook) \<and>
   js_get aapl_frame ''type'' = Some (JStr ''news'') \<and>
   \<not> substring_throws (js_get aapl_frame ''headline'') \<and>
   \<not> template_throws (js_get aapl_frame ''symbol'') \<and>
   js_get numeric_headline_frame ''type'' = Some (JStr ''news'') \<and>
   substring_throws (js_get numeric_headline_frame ''headline'') \<and>
   sendToN8n cfg_nohook (transformedNews aapl_frame 1700000005001) 1700000005002
     (Response 200) connected0 = connected0 \<and>
   posts (on_message cfg_nohook (Parsed aapl_frame) tm0 (Response 200) connected0) = [] \<and>
   messagesSent (stats (on_message cfg_nohook (Parsed aapl_frame) tm0 (Response 200)
                          connected0)) = 0 \<and>
   errors (stats (on_message cfg_nohook (Parsed aapl_frame) tm0 (Response 200)
                    connected0)) = 0 \<and>
   posts (on_message cfg_nohook (Parsed numeric_headline_frame) tm0 (Response 200)
            connected0) = [] \<and>
   messagesSent (stats (on_message cfg_nohook (Parsed numeric_headline_frame) tm0
                          (Response 200) connected0)) = 0 \<and>
   errors (stats (on_message cfg_nohook (Parsed numeric_headline_frame) tm0 (Response 200)
                    connected0)) = 1"
proof -
  have h: "\<not> env_set (N8N_WEBHOOK_URL cfg_nohook)"
    by (simp add: cfg_nohook_def cfg0_def env_set_def)
  have t: "js_get aapl_frame ''type'' = Some (JStr ''news'')"
    "\<not> substring_throws (js_get aapl_frame ''headline'')"
    "\<not> template_throws (js_get aapl_frame ''symbol'')"
    by (simp_all add: aapl_frame_def template_throws_def)
  have n: "js_get numeric_headline_frame ''type'' = Some (JStr ''news'')"
    "substring_throws (js_get numeric_headline_frame ''headline'')"
    by (simp_all add: numeric_headline_frame_def)
  have c: "posts connected0 = []" "messagesSent (stats connected0) = 0"
    "errors (stats connected0) = 0"
    by (simp_all add: connected0_eq)
  from no_webhook_no_delivery[OF h, of "transformedNews aapl_frame 1700000005001"
        1700000005002 "Response 200" connected0 aapl_frame tm0]
    no_webhook_no_delivery[OF h, of "transformedNews aapl_frame 1700000005001"
        1700000005002 "Response 200" connected0 numeric_headline_frame tm0]
    h t n
  show ?thesis
    by (simp add: c)
qed

section \<open>Ping frames\<close>

text \<open>
  Claim C6, as stated, fails in one field: the handler stamps \<open>lastMessage\<close> for every
  frame that parses, before it looks at the type, so a ping moves the last message time
  as well.
\<close>

theorem ping_touches_lastMessage:
  "lastMessage (stats connected0) = None \<and>
   lastMessage (stats (on_message cfg0 (Parsed ping_frame) tm0 NoResponse connected0)) =
     Some 1700000005000"
  by (simp add: connected0_eq on_message_def ping_frame_def tm0_def Let_def ws_send_def)

text \<open>
  Claim C6, amended. For every inbound ping frame received on the current socket while
  it is open, exactly one pong frame is written, on that same socket, and of the
  statistics only the received counter and the last message time change; the sent
  counter, the error counter and everything else in the state stay as they are.
\<close>

theorem ping_pong:
  assumes "ws s = Some sock" and "readyState sock = OPEN"
    and "js_get message ''type'' = Some (JStr ''ping'')"
  shows "step cfg s (Message (sock_id sock) (Parsed message) tm r) =
           s\<lparr>stats := (stats s)\<lparr>messagesReceived := messagesReceived (stats s) + 1,
                                 lastMessage := Some (t_received tm)\<rparr>,
             frames := frames s @ [(sock_id sock, Pong)]\<rparr>"
  using assms by (auto simp add: on_message_def Let_def ws_send_def)

theorem ping_pong_witness:
  "ws connected0 = Some \<lparr>sock_id = 0, readyState = OPEN\<rparr> \<and>
   readyState \<lparr>sock_id = 0, readyState = OPEN\<rparr> = OPEN \<and>
   js_get ping_frame ''type'' = Some (JStr ''ping'') \<and>
   frames (step cfg0 connected0 (Message 0 (Parsed ping_frame) tm0 NoResponse)) =
     [(0, Pong)] \<and>
   stats (step cfg0 connected0 (Message 0 (Parsed ping_frame) tm0 NoResponse)) =
     \<lparr>connected = True, lastMessage = Some 1700000005000, messagesReceived = 1,
      messagesSent = 0, connectionTime = Some 1700000000000, errors = 0\<rparr>"
proof -
  have w: "ws connected0 = Some \<lparr>sock_id = 0, readyState = OPEN\<rparr>"
    by (simp add: connected0_eq)
  have o: "readyState \<lparr>sock_id = 0, readyState = OPEN\<rparr> = OPEN" by simp
  have p: "js_get ping_frame ''type'' = Some (JStr ''ping'')"
    by (simp add: ping_frame_def)
  show ?thesis
    using ping_pong[OF w o p, of cfg0 tm0 NoResponse] w p
    by (simp add: connected0_eq tm0_def)
qed

section \<open>The error counter\<close>

text \<open>
  Claim C8, as stated, fails for two kinds of fault: a start without the API key logs the
  configuration fault and leaves the error counter where it was, and so does the close of
  a socket.
\<close>

theorem uncounted_faults:
  "ws (startup cfg_nokey) = None \<and>
   \<not> errors (stats (initial cfg_nokey)) + 1 \<le> errors (stats (startup cfg_nokey)) \<and>
   \<not> errors (stats connected0) + 1 \<le> errors (stats (step cfg0 connected0 (Closed 0)))"
  by (simp add: startup_def connectToFinnhub_def initial_def cfg_nokey_def cfg0_def
      env_set_def connected0_eq becomes_def on_close_def Let_def MAX_RECONNECT_ATTEMPTS_def)

text \<open>
  Claim C8, amended. A socket error, a parse fault and a delivery fault each raise the
  single shared error counter by exactly 1; the close of a socket and a connection
  attempt without the API key (the configuration fault) leave it unchanged.
\<close>

theorem counted_faults:
  "errors (stats (on_error s)) = errors (stats s) + 1 \<and>
   errors (stats (on_message cfg Malformed tm r s)) = errors (stats s) + 1 \<and>
   (env_set (N8N_WEBHOOK_URL cfg) \<and> \<not> resolves r \<longrightarrow>
      errors (stats (sendToN8n cfg ev now r s)) = errors (stats s) + 1) \<and>
   errors (stats (on_close s)) = errors (stats s) \<and>
   errors (stats (connectToFinnhub cfg s)) = errors (stats s)"
  by (auto simp add: on_error_def on_message_def count_error_def sendToN8n_def env_set_def
      on_close_def connectToFinnhub_def Let_def split: option.splits)

theorem counted_faults_witness:
  "env_set (N8N_WEBHOOK_URL cfg0) \<and> \<not> resolves NoResponse \<and>
   errors (stats (on_error connected0)) = 1 \<and>
   errors (stats (on_message cfg0 Malformed tm0 NoResponse connected0)) = 1 \<and>
   errors (stats (sendToN8n cfg0 (transformedNews aapl_frame 1700000005001) 1700000005002
                    NoResponse connected0)) = 1 \<and>
   errors (stats (on_close connected0)) = 0 \<and>
   errors (stats (connectToFinnhub cfg0 connected0)) = 0"
proof -
  have e: "env_set (N8N_WEBHOOK_URL cfg0)" by (simp add: cfg0_def env_set_def)
  have r: "\<not> resolves NoResponse" by simp
  have z: "errors (stats connected0) = 0" by (simp add: connected0_eq)
  show ?thesis
    using counted_faults[of connected0 cfg0 tm0 NoResponse
        "transformedNews aapl_frame 1700000005001" 1700000005002] e r
    by (simp add: z)
qed

section \<open>Subscription replay\<close>

lemma subscribe_fold_frames:
  "ws s = Some sock \<Longrightarrow> readyState sock = OPEN \<Longrightarrow>
     frames (foldl (\<lambda>a t. subscribeToSymbol t a) s xs) =
       frames s @ map (\<lambda>t. (sock_id sock, Subscribe t)) xs"
proof (induction xs arbitrary: s)
  case Nil
  then show ?case by simp
next
  case (Cons x xs)
  have "ws (subscribeToSymbol x s) = Some sock" using Cons.prems by simp
  from Cons.IH[OF this Cons.prems(2)] Cons.prems show ?case
    by (simp add: subscribeToSymbol_def)
qed

lemma replay_frames:
  "ws s = Some sock \<Longrightarrow> readyState sock = OPEN \<Longrightarrow>
     frames (subscribeToAllSymbols s) =
       frames s @ map (\<lambda>t. (sock_id sock, Subscribe t)) (SYMBOLS s)"
  by (simp add: subscribeToAllSymbols_def is_open_def subscribe_fold_frames)

lemma not_open_quiet:
  "\<not> is_open s \<Longrightarrow> subscribeToAllSymbols s = s"
  "\<not> is_open s \<Longrightarrow> subscribeToSymbol t s = s"
  "\<not> is_open s \<Longrightarrow> unsubscribeFromSymbol t s = s"
  "\<not> is_open s \<Longrightarrow> keep_alive s = s"
  by (simp_all add: subscribeToAllSymbols_def subscribeToSymbol_def unsubscribeFromSymbol_def
      keep_alive_def is_open_def split: option.splits)

lemma is_open_cong: "ws s' = ws s \<Longrightarrow> is_open s' = is_open s"
  by (simp add: is_open_def)

lemma connect_not_open: "\<not> is_open (connectToFinnhub cfg s)"
  by (simp add: connectToFinnhub_def is_open_def Let_def split: option.splits)

lemma becomes_not_open: "\<not> is_open s \<Longrightarrow> r \<noteq> OPEN \<Longrightarrow> \<not> is_open (becomes sid r s)"
  by (simp add: becomes_def is_open_def split: option.splits)

lemma on_message_ws [simp]: "ws (on_message cfg d tm r s) = ws s"
  by (auto simp add: on_message_def count_error_def Let_def dest: ws_send_fields
      split: raw.split thrown.split)

lemma on_message_quiet: "\<not> is_open s \<Longrightarrow> frames (on_message cfg d tm r s) = frames s"
  by (auto simp add: on_message_def count_error_def Let_def ws_send_def is_open_def
      split: raw.split thrown.split option.splits ready_state.splits)

lemma handlers_ws [simp]:
  "ws (on_open now s) = ws s"
  "ws (on_close s) = ws s"
  "ws (keep_alive s) = ws s"
  "frames (on_open now s) = frames s"
  "frames (on_close s) = frames s"
  by (simp_all add: on_open_def on_close_def keep_alive_def Let_def split: option.split)

lemma add_quiet:
  "\<not> is_open s \<Longrightarrow> frames (snd (symbols_add cfg b s)) = frames s"
  "ws (snd (symbols_add cfg b s)) = ws s"
  by (simp_all add: symbols_add_def Let_def is_open_def split: option.split json.split)

lemma delete_quiet:
  "\<not> is_open s \<Longrightarrow> frames (snd (symbols_delete cfg p s)) = frames s"
  "ws (snd (symbols_delete cfg p s)) = ws s"
  by (simp_all add: symbols_delete_def Let_def is_open_def split: option.split)

text \<open>While the current socket is not open, only an open event can change that, and no
  frame is written.\<close>

lemma quiet_step:
  assumes "\<not> is_open s" and "\<not> is_opened e"
  shows "\<not> is_open (step cfg s e) \<and> frames (step cfg s e) = frames s"
proof (cases e)
  case (Opened sid now)
  with assms show ?thesis by simp
next
  case (Message sid d tm r)
  with assms show ?thesis
    by (simp add: on_message_quiet is_open_cong[of "on_message cfg d tm r s" s])
next
  case (Errored sid)
  with assms show ?thesis
    using becomes_not_open[of s CLOSING sid]
    by (simp add: is_open_cong[of "on_error (becomes sid CLOSING s)" "becomes sid CLOSING s"])
next
  case (Closed sid)
  with assms show ?thesis
    using becomes_not_open[of s CLOSED sid]
    by (simp add: is_open_cong[of "on_close (becomes sid CLOSED s)" "becomes sid CLOSED s"])
next
  case (Timeout cb)
  with assms show ?thesis by (cases cb) (simp_all add: not_open_quiet connect_not_open)
next
  case Interval
  with assms show ?thesis by (simp add: not_open_quiet)
next
  case (Add b)
  with assms show ?thesis
    by (simp add: add_quiet is_open_cong[of "snd (symbols_add cfg b s)" s])
next
  case (Delete p)
  with assms show ?thesis
    by (simp add: delete_quiet is_open_cong[of "snd (symbols_delete cfg p s)" s])
next
  case Restart
  with assms show ?thesis by (simp add: restart_def connect_not_open)
qed

lemma quiet_run:
  "\<not> is_open s \<Longrightarrow> list_all (\<lambda>e. \<not> is_opened e) es \<Longrightarrow>
     \<not> is_open (run cfg s es) \<and> frames (run cfg s es) = frames s"
proof (induction es rule: rev_induct)
  case Nil
  then show ?case by (simp add: run_def)
next
  case (snoc e es)
  then show ?case by (simp add: run_snoc quiet_step)
qed

lemma opened_state:
  assumes "ws s = Some sock"
  shows "ws (step cfg s (Opened (sock_id sock) now)) = Some (sock\<lparr>readyState := OPEN\<rparr>)"
  using assms by (simp add: becomes_def)

lemma startup_three:
  "startup cfg_three =
     \<lparr>SYMBOLS = [''AAPL'', ''MSFT'', ''TSLA''],
      ws = Some \<lparr>sock_id = 0, readyState = CONNECTING\<rparr>, reconnectAttempts = 0,
      stats = \<lparr>connected = False, lastMessage = None, messagesReceived = 0,
               messagesSent = 0, connectionTime = None, errors = 0\<rparr>,
      next_socket = 1, frames = [], pings = [], terminated = [], timers = [], posts = []\<rparr>"
  by (simp add: startup_def initial_def cfg_three_def cfg0_def initial_SYMBOLS_def ascii_trim_def
      is_space_def ascii_toUpperCase_def upper_char_def connectToFinnhub_def env_set_def)

text \<open>
  Claim C4, as stated, fails: the replay reads the registry and the socket when its
  timer fires, not when the connection opened. The first connection opens with the one
  topic AAPL in the registry. If MSFT is added before the timer fires, the add writes
  one subscribe frame and the replay two, three in all; if the socket closes before the
  timer fires, the replay writes none.
\<close>

theorem replay_reads_state_at_firing:
  "SYMBOLS (run cfg0 (startup cfg0) [Opened 0 1700000000000]) = [''AAPL''] \<and>
   frames (run cfg0 (startup cfg0) [Opened 0 1700000000000]) = [] \<and>
   frames (run cfg0 (startup cfg0)
             [Opened 0 1700000000000, Add (Some (JStr ''msft'')),
              Timeout Call_subscribeToAllSymbols]) =
     [(0, Subscribe ''MSFT''), (0, Subscribe ''AAPL''), (0, Subscribe ''MSFT'')] \<and>
   frames (run cfg0 (startup cfg0)
             [Opened 0 1700000000000, Closed 0, Timeout Call_subscribeToAllSymbols]) = []"
proof -
  have o: "run cfg0 (startup cfg0) [Opened 0 1700000000000] = connected0"
    by (simp add: connected0_def)
  have a: "run cfg0 (startup cfg0)
             [Opened 0 1700000000000, Add (Some (JStr ''msft'')),
              Timeout Call_subscribeToAllSymbols] =
           step cfg0 (step cfg0 connected0 (Add (Some (JStr ''msft''))))
             (Timeout Call_subscribeToAllSymbols)"
    by (simp add: connected0_def run_def)
  have b: "run cfg0 (startup cfg0)
             [Opened 0 1700000000000, Closed 0, Timeout Call_subscribeToAllSymbols] =
           step cfg0 (step cfg0 connected0 (Closed 0)) (Timeout Call_subscribeToAllSymbols)"
    by (simp add: connected0_def run_def)
  show ?thesis
    unfolding o a b
    by (simp add: connected0_eq symbols_add_def upper_msft Let_def is_open_def
        subscribeToSymbol_def subscribeToAllSymbols_def becomes_def on_close_def
        MAX_RECONNECT_ATTEMPTS_def)
qed

text \<open>
  Claim C4, amended. When the current socket opens, the open handler resets the attempt
  counter to 0, sets the connected flag, records the connection time, sets one timer of
  1000 ms for the replay and writes no frame itself. When that timer fires, the replay
  writes one subscribe frame per topic of the registry as it stands at that moment, in the
  registry's order, to the current socket if that is open, and nothing otherwise; so for
  the \<open>N\<close> topics held when the connection opened it writes exactly \<open>N\<close> frames, one per
  topic and in order, when the timer fires on the state the open handler left. And no
  frame is written before the socket is open: from any state whose current socket is not
  open, a run without an open event writes nothing.
\<close>

theorem connect_replay:
  assumes "ws s = Some sock"
  shows "reconnectAttempts (step cfg s (Opened (sock_id sock) now)) = 0 \<and>
         connected (stats (step cfg s (Opened (sock_id sock) now))) \<and>
         connectionTime (stats (step cfg s (Opened (sock_id sock) now))) = Some now \<and>
         timers (step cfg s (Opened (sock_id sock) now)) =
           timers s @ [(1000, Call_subscribeToAllSymbols)] \<and>
         frames (step cfg s (Opened (sock_id sock) now)) = frames s \<and>
         frames (step cfg (step cfg s (Opened (sock_id sock) now))
                   (Timeout Call_subscribeToAllSymbols)) =
           frames s @ map (\<lambda>t. (sock_id sock, Subscribe t)) (SYMBOLS s) \<and>
         (ws u = Some sock' \<and> readyState sock' = OPEN \<longrightarrow>
            frames (step cfg u (Timeout Call_subscribeToAllSymbols)) =
              frames u @ map (\<lambda>t. (sock_id sock', Subscribe t)) (SYMBOLS u)) \<and>
         (\<not> is_open s' \<longrightarrow> step cfg s' (Timeout Call_subscribeToAllSymbols) = s') \<and>
         (\<not> is_open s' \<and> list_all (\<lambda>e. \<not> is_opened e) es \<longrightarrow>
            frames (run cfg s' es) = frames s')"
proof -
  let ?s1 = "step cfg s (Opened (sock_id sock) now)"
  have a: "reconnectAttempts ?s1 = 0" "connected (stats ?s1)"
    "connectionTime (stats ?s1) = Some now"
    "timers ?s1 = timers s @ [(1000, Call_subscribeToAllSymbols)]"
    "frames ?s1 = frames s" "SYMBOLS ?s1 = SYMBOLS s"
    by (simp_all add: on_open_def)
  have w: "ws ?s1 = Some (sock\<lparr>readyState := OPEN\<rparr>)"
    by (rule opened_state[OF assms])
  have "frames (subscribeToAllSymbols ?s1) =
          frames ?s1 @ map (\<lambda>t. (sock_id (sock\<lparr>readyState := OPEN\<rparr>), Subscribe t)) (SYMBOLS ?s1)"
    by (rule replay_frames[OF w]) simp
  then have b: "frames (step cfg ?s1 (Timeout Call_subscribeToAllSymbols)) =
          frames s @ map (\<lambda>t. (sock_id sock, Subscribe t)) (SYMBOLS s)"
    by (simp add: a)
  have c: "\<not> is_open s' \<and> list_all (\<lambda>e. \<not> is_opened e) es \<longrightarrow>
            frames (run cfg s' es) = frames s'"
    using quiet_run[of s' es cfg] by blast
  have d: "ws u = Some sock' \<and> readyState sock' = OPEN \<longrightarrow>
            frames (step cfg u (Timeout Call_subscribeToAllSymbols)) =
              frames u @ map (\<lambda>t. (sock_id sock', Subscribe t)) (SYMBOLS u)"
    by (simp add: replay_frames)
  have e: "\<not> is_open s' \<longrightarrow> step cfg s' (Timeout Call_subscribeToAllSymbols) = s'"
    by (simp add: not_open_quiet)
  from a b c d e show ?thesis by blast
qed

theorem connect_replay_witness:
  "ws (startup cfg_three) = Some \<lparr>sock_id = 0, readyState = CONNECTING\<rparr> \<and>
   \<not> is_open (startup cfg_three) \<and>
   list_all (\<lambda>e. \<not> is_opened e)
     [Add (Some (JStr ''nvda'')), Timeout Call_subscribeToAllSymbols, Interval] \<and>
   reconnectAttempts (step cfg_three (startup cfg_three) (Opened 0 1700000000000)) = 0 \<and>
   connectionTime (stats (step cfg_three (startup cfg_three) (Opened 0 1700000000000))) =
     Some 1700000000000 \<and>
   timers (step cfg_three (startup cfg_three) (Opened 0 1700000000000)) =
     [(1000, Call_subscribeToAllSymbols)] \<and>
   frames (step cfg_three (startup cfg_three) (Opened 0 1700000000000)) = [] \<and>
   frames (step cfg_three (step cfg_three (startup cfg_three) (Opened 0 1700000000000))
             (Timeout Call_subscribeToAllSymbols)) =
     [(0, Subscribe ''AAPL''), (0, Subscribe ''MSFT''), (0, Subscribe ''TSLA'')] \<and>
   ws connected0 = Some \<lparr>sock_id = 0, readyState = OPEN\<rparr> \<and>
   readyState \<lparr>sock_id = 0, readyState = OPEN\<rparr> = OPEN \<and>
   frames (step cfg_three connected0 (Timeout Call_subscribeToAllSymbols)) =
     [(0, Subscribe ''AAPL'')] \<and>
   step cfg_three (startup cfg_three) (Timeout Call_subscribeToAllSymbols) =
     startup cfg_three \<and>
   frames (run cfg_three (startup cfg_three)
             [Add (Some (JStr ''nvda'')), Timeout Call_subscribeToAllSymbols, Interval]) = []"
proof -
  have w: "ws (startup cfg_three) = Some \<lparr>sock_id = 0, readyState = CONNECTING\<rparr>"
    by (simp add: startup_three)
  have n: "\<not> is_open (startup cfg_three)"
    by (simp add: startup_three is_open_def)
  have l: "list_all (\<lambda>e. \<not> is_opened e)
     [Add (Some (JStr ''nvda'')), Timeout Call_subscribeToAllSymbols, Interval]"
    by simp
  have f: "frames (startup cfg_three) = []" "timers (startup cfg_three) = []"
    "SYMBOLS (startup cfg_three) = [''AAPL'', ''MSFT'', ''TSLA'']"
    by (simp_all add: startup_three)
  have c: "ws connected0 = Some \<lparr>sock_id = 0, readyState = OPEN\<rparr>"
    "frames connected0 = []" "SYMBOLS connected0 = [''AAPL'']"
    by (simp_all add: connected0_eq)
  from connect_replay[OF w, of cfg_three 1700000000000 connected0
      "\<lparr>sock_id = 0, readyState = OPEN\<rparr>" "startup cfg_three"
      "[Add (Some (JStr ''nvda'')), Timeout Call_subscribeToAllSymbols, Interval]"] w n l c(1)
  show ?thesis
    unfolding f c(2,3) by simp
qed

section \<open>Timers that outlive their connection\<close>

lemma stale_state_eq:
  "stale_state =
     \<lparr>SYMBOLS = [''AAPL''], ws = Some \<lparr>sock_id = 1, readyState = OPEN\<rparr>,
      reconnectAttempts = 0,
      stats = \<lparr>connected = True, lastMessage = None, messagesReceived = 0,
               messagesSent = 0, connectionTime = Some 1700000000400, errors = 0\<rparr>,
      next_socket = 2, frames = [], pings = [], terminated = [],
      timers = [(1000, Call_subscribeToAllSymbols), (2000, Call_connectToFinnhub),
                (1000, Call_subscribeToAllSymbols)],
      posts = []\<rparr>"
  by (simp add: stale_state_def run_def startup_def initial_def cfg0_def initial_SYMBOLS_def
      connectToFinnhub_def env_set_def becomes_def on_open_def on_close_def restart_def
      Let_def MAX_RECONNECT_ATTEMPTS_def BASE_RECONNECT_DELAY_def)

text \<open>
  Claim C7, as stated, fails: no timer carries a guard. The first connection opens and
  drops, which leaves its replay timer and its reconnect timer pending; a manual restart
  then establishes a second connection, socket 1, which is open. When the reconnect timer
  of the first connection now fires, it terminates socket 1 and starts a third
  connection; when the replay timer of the first connection fires, it writes a subscribe
  frame to socket 1.
\<close>

theorem stale_timers_act:
  "ws stale_state = Some \<lparr>sock_id = 1, readyState = OPEN\<rparr> \<and>
   timers stale_state =
     [(1000, Call_subscribeToAllSymbols), (2000, Call_connectToFinnhub),
      (1000, Call_subscribeToAllSymbols)] \<and>
   terminated stale_state = [] \<and>
   terminated (step cfg0 stale_state (Timeout Call_connectToFinnhub)) = [1] \<and>
   ws (step cfg0 stale_state (Timeout Call_connectToFinnhub)) =
     Some \<lparr>sock_id = 2, readyState = CONNECTING\<rparr> \<and>
   connected (stats (step cfg0 stale_state (Timeout Call_connectToFinnhub))) = False \<and>
   frames stale_state = [] \<and>
   frames (step cfg0 stale_state (Timeout Call_subscribeToAllSymbols)) =
     [(1, Subscribe ''AAPL'')]"
  by (simp add: stale_state_eq connectToFinnhub_def cfg0_def env_set_def Let_def
      subscribeToAllSymbols_def is_open_def subscribeToSymbol_def)

text \<open>
  Claim C7, amended. A timer that fires acts on the socket that is current at that
  moment, whichever connection it was set for. The replay timer and the keep-alive are
  no-ops when there is no current socket or it is not open; when the current socket is
  open they write to it, one subscribe frame per topic of the registry and one ping, and
  never to an abandoned socket. A reconnect timer that fires terminates the current socket
  unless that is already closed, and with the API key configured it makes a new socket
  the current one.
\<close>

theorem timers_act_on_current_socket:
  "(\<not> is_open s \<longrightarrow>
      step cfg s (Timeout Call_subscribeToAllSymbols) = s \<and> step cfg s Interval = s) \<and>
   (ws s = Some sock \<and> readyState sock = OPEN \<longrightarrow>
      frames (step cfg s (Timeout Call_subscribeToAllSymbols)) =
        frames s @ map (\<lambda>t. (sock_id sock, Subscribe t)) (SYMBOLS s) \<and>
      pings (step cfg s Interval) = pings s @ [sock_id sock]) \<and>
   (ws s = Some sock \<and> readyState sock \<noteq> CLOSED \<longrightarrow>
      terminated (step cfg s (Timeout Call_connectToFinnhub)) =
        terminated s @ [sock_id sock]) \<and>
   (env_set (FINNHUB_API_KEY cfg) \<longrightarrow>
      ws (step cfg s (Timeout Call_connectToFinnhub)) =
        Some \<lparr>sock_id = next_socket s, readyState = CONNECTING\<rparr>)"
proof -
  have a: "\<not> is_open s \<longrightarrow>
      step cfg s (Timeout Call_subscribeToAllSymbols) = s \<and> step cfg s Interval = s"
    by (simp add: not_open_quiet)
  have b: "ws s = Some sock \<and> readyState sock = OPEN \<longrightarrow>
      frames (step cfg s (Timeout Call_subscribeToAllSymbols)) =
        frames s @ map (\<lambda>t. (sock_id sock, Subscribe t)) (SYMBOLS s) \<and>
      pings (step cfg s Interval) = pings s @ [sock_id sock]"
    by (simp add: replay_frames keep_alive_def)
  have c: "ws s = Some sock \<and> readyState sock \<noteq> CLOSED \<longrightarrow>
      terminated (step cfg s (Timeout Call_connectToFinnhub)) =
        terminated s @ [sock_id sock]"
    by (simp add: connectToFinnhub_def Let_def)
  have d: "env_set (FINNHUB_API_KEY cfg) \<longrightarrow>
      ws (step cfg s (Timeout Call_connectToFinnhub)) =
        Some \<lparr>sock_id = next_socket s, readyState = CONNECTING\<rparr>"
    by (simp add: connectToFinnhub_def Let_def split: option.split)
  from a b c d show ?thesis by blast
qed

theorem timers_act_on_current_socket_witness:
  "\<not> is_open (startup cfg0) \<and>
   step cfg0 (startup cfg0) (Timeout Call_subscribeToAllSymbols) = startup cfg0 \<and>
   step cfg0 (startup cfg0) Interval = startup cfg0 \<and>
   ws connected0 = Some \<lparr>sock_id = 0, readyState = OPEN\<rparr> \<and>
   readyState \<lparr>sock_id = 0, readyState = OPEN\<rparr> = OPEN \<and>
   readyState \<lparr>sock_id = 0, readyState = OPEN\<rparr> \<noteq> CLOSED \<and>
   env_set (FINNHUB_API_KEY cfg0) \<and>
   frames (step cfg0 connected0 (Timeout Call_subscribeToAllSymbols)) =
     [(0, Subscribe ''AAPL'')] \<and>
   pings (step cfg0 connected0 Interval) = [0] \<and>
   terminated (step cfg0 connected0 (Timeout Call_connectToFinnhub)) = [0] \<and>
   ws (step cfg0 connected0 (Timeout Call_connectToFinnhub)) =
     Some \<lparr>sock_id = 1, readyState = CONNECTING\<rparr>"
proof -
  have n: "\<not> is_open (startup cfg0)"
    by (simp add: startup_def connect_not_open)
  have w: "ws connected0 = Some \<lparr>sock_id = 0, readyState = OPEN\<rparr>"
    by (simp add: connected0_eq)
  have e: "env_set (FINNHUB_API_KEY cfg0)"
    by (simp add: cfg0_def env_set_def)
  have f: "frames connected0 = []" "pings connected0 = []" "terminated connected0 = []"
    "SYMBOLS connected0 = [''AAPL'']" "next_socket connected0 = 1"
    by (simp_all add: connected0_eq)
  from timers_act_on_current_socket[of "startup cfg0" cfg0 "\<lparr>sock_id = 0, readyState = OPEN\<rparr>"]
    timers_act_on_current_socket[of connected0 cfg0 "\<lparr>sock_id = 0, readyState = OPEN\<rparr>"]
    n w e
  show ?thesis
    unfolding f by simp
qed

end
